theory Spec2Isabelle
  imports Main "HOL-Library.Sublist"
begin

section \<open>Strings\<close>

text \<open>
  The shell tool (\<^verbatim>\<open>src/tools/tool_shell.py\<close>) works on Python \<^verbatim>\<open>str\<close> values. A string
  is modelled as a \<^typ>\<open>string\<close> whose characters are the code points 0..255, so that
  \<^const>\<open>length\<close> is Python's \<^verbatim>\<open>len\<close> on such strings. Python's unbounded \<^verbatim>\<open>int\<close> is
  \<^typ>\<open>int\<close>.
\<close>

abbreviation NL :: char where
  "NL \<equiv> CHR 0x0A"

abbreviation QUOTE :: char where
  "QUOTE \<equiv> CHR 0x27"

abbreviation BACKSLASH :: char where
  "BACKSLASH \<equiv> CHR 0x5C"

text \<open>\<^verbatim>\<open>str.isspace\<close> of one character: TAB..CR, FS..US, space, NEL and NBSP.\<close>

definition isspace :: "char \<Rightarrow> bool" where
  "isspace c = (let n = (of_char c :: nat) in
     (9 \<le> n \<and> n \<le> 13) \<or> (28 \<le> n \<and> n \<le> 32) \<or> n = 133 \<or> n = 160)"

text \<open>
  \<^verbatim>\<open>str.lower\<close> of one character: A..Z and the Latin-1 capitals (all of 0xC0..0xDE but the
  multiplication sign 0xD7) move up by 32, every other character stays.
\<close>

definition lower_char :: "char \<Rightarrow> char" where
  "lower_char c = (let n = (of_char c :: nat) in
     if (65 \<le> n \<and> n \<le> 90) \<or> (192 \<le> n \<and> n \<le> 222 \<and> n \<noteq> 215)
     then char_of (n + 32) else c)"

definition str_lower :: "string \<Rightarrow> string" where
  "str_lower s = map lower_char s"

text \<open>\<^verbatim>\<open>s.strip()\<close>: whitespace is dropped at both ends.\<close>

definition str_strip :: "string \<Rightarrow> string" where
  "str_strip s = rev (dropWhile isspace (rev (dropWhile isspace s)))"

text \<open>\<^verbatim>\<open>sub in s\<close>: \<^verbatim>\<open>sub\<close> occurs in \<^verbatim>\<open>s\<close> as a contiguous run.\<close>

definition str_in :: "string \<Rightarrow> string \<Rightarrow> bool" where
  "str_in sub s = sublist sub s"

text \<open>\<^verbatim>\<open>s.startswith(p)\<close>.\<close>

definition startswith :: "string \<Rightarrow> string \<Rightarrow> bool" where
  "startswith s p = prefix p s"

text \<open>\<^verbatim>\<open>sep.join(xs)\<close>.\<close>

fun str_join :: "string \<Rightarrow> string list \<Rightarrow> string" where
  "str_join sep [] = []"
| "str_join sep [x] = x"
| "str_join sep (x # y # ys) = x @ sep @ str_join sep (y # ys)"

text \<open>\<^verbatim>\<open>s[:n]\<close>: a negative \<^verbatim>\<open>n\<close> counts from the end of the string.\<close>

definition slice_to :: "string \<Rightarrow> int \<Rightarrow> string" where
  "slice_to s n = (if 0 \<le> n then take (nat n) s else take (length s - nat (- n)) s)"

text \<open>\<^verbatim>\<open>str(n)\<close> of an integer: its decimal digits, with a minus sign when negative.\<close>

definition digit_char :: "nat \<Rightarrow> char" where
  "digit_char d = char_of (48 + d)"

fun str_nat :: "nat \<Rightarrow> string" where
  "str_nat n = (if n < 10 then [digit_char n] else str_nat (n div 10) @ [digit_char (n mod 10)])"

declare str_nat.simps [simp del]

definition str_int :: "int \<Rightarrow> string" where
  "str_int i = (if i < 0 then CHR ''-'' # str_nat (nat (- i)) else str_nat (nat i))"

section \<open>The deny list and the warn list\<close>

text \<open>
  \<^verbatim>\<open>BLOCKED_COMMANDS\<close> is a Python set; it is only ever searched for some member that
  occurs in the command, so the order of the list below does not matter.
\<close>

definition BLOCKED_COMMANDS :: "string list" where
  "BLOCKED_COMMANDS =
    [''rm -rf /'', ''rm -rf /*'', ''del /f /s /q c:'' @ [BACKSLASH],
     ''format'', ''mkfs'', ''dd if='',
     ''shutdown'', ''reboot'', ''halt'', ''init 0'', ''init 6'',
     ''nmap'', ''nikto'', ''sqlmap'', ''hydra'',
     ''sudo rm'', ''sudo dd'']"

definition WARN_PATTERNS :: "string list" where
  "WARN_PATTERNS = [''sudo'', ''admin'', ''password'', ''delete'', ''remove'']"

text \<open>\<^verbatim>\<open>_is_blocked\<close>: some deny pattern occurs in the lower-cased, stripped command.\<close>

definition is_blocked :: "string \<Rightarrow> bool" where
  "is_blocked command =
    (let cmd_lower = str_strip (str_lower command)
     in list_ex (\<lambda>blocked. str_in (str_lower blocked) cmd_lower) BLOCKED_COMMANDS)"

text \<open>
  \<^verbatim>\<open>_has_warnings\<close>: one message for each warn pattern that occurs in the lower-cased
  command, in the order of \<^verbatim>\<open>WARN_PATTERNS\<close>. The loop over the patterns is the recursion
  of \<open>warn_loop\<close>.
\<close>

primrec warn_loop :: "string list \<Rightarrow> string \<Rightarrow> string list" where
  "warn_loop [] cmd_lower = []"
| "warn_loop (pattern # rest) cmd_lower =
    (if str_in pattern cmd_lower
     then (''Command contains '' @ [QUOTE] @ pattern @ [QUOTE]) # warn_loop rest cmd_lower
     else warn_loop rest cmd_lower)"

definition has_warnings :: "string \<Rightarrow> string list" where
  "has_warnings command = warn_loop WARN_PATTERNS (str_lower command)"

section \<open>Configuration and the host\<close>

text \<open>The \<^verbatim>\<open>Valves\<close> of the tool, with their defaults.\<close>

record valves =
  default_timeout :: int
  max_output_kb :: int
  allow_sudo :: bool
  blocked_commands :: string
  default_working_dir :: string

definition default_valves :: valves where
  "default_valves =
    \<lparr>default_timeout = 30, max_output_kb = 50, allow_sudo = False,
     blocked_commands = ''rm -rf /,format,mkfs,dd if=,shutdown,reboot'',
     default_working_dir = ''/data/user-files''\<rparr>"

text \<open>
  What \<^verbatim>\<open>subprocess.run\<close> does: the process completes with its two captured streams and
  its return code, or one of the exceptions that \<^verbatim>\<open>run_command\<close> tells apart is raised
  (\<open>OtherException\<close> stands for every other subclass of \<^verbatim>\<open>Exception\<close>; the strings are
  the \<^verbatim>\<open>str\<close> of the exception).
\<close>

datatype proc_outcome =
  Completed (stdout: string) (stderr: string) (returncode: int)
  | TimeoutExpired
  | FileNotFoundError string
  | PermissionError
  | OtherException string

text \<open>
  An exception that \<^verbatim>\<open>run_command\<close> does not catch and that reaches its caller. The only
  call outside the \<^verbatim>\<open>try\<close> block that can raise is \<^verbatim>\<open>os.path.expanduser\<close>, which
  looks the user name after \<^verbatim>\<open>~\<close> up in the password database and raises
  \<^verbatim>\<open>ValueError\<close> when that name holds a null character.
\<close>

datatype py_exception = ValueError string

text \<open>
  The host as the tool sees it: \<^verbatim>\<open>platform.system()\<close>, \<^verbatim>\<open>os.path.exists\<close>,
  \<^verbatim>\<open>os.path.isdir\<close> (these two return \<^verbatim>\<open>False\<close> where the system call fails, they never
  raise), \<^verbatim>\<open>os.path.expanduser\<close> (the expanded path, or the exception it raises), and
  the outcome of \<^verbatim>\<open>subprocess.run\<close> for an argument vector, a timeout and a working
  directory (\<^verbatim>\<open>None\<close> when there is none).
\<close>

record host =
  system :: string
  path_exists :: "string \<Rightarrow> bool"
  path_isdir :: "string \<Rightarrow> bool"
  expanduser :: "string \<Rightarrow> py_exception + string"
  subprocess_run :: "string list \<Rightarrow> int \<Rightarrow> string option \<Rightarrow> proc_outcome"

text \<open>One call of \<^verbatim>\<open>subprocess.run\<close>: the argument vector, the timeout and the \<^verbatim>\<open>cwd\<close>.\<close>

type_synonym spawn = "string list \<times> int \<times> string option"

text \<open>\<^verbatim>\<open>_get_shell\<close>.\<close>

definition get_shell :: "host \<Rightarrow> string list" where
  "get_shell h =
    (if system h = ''Windows'' then
       (if path_exists h (''C:'' @ [BACKSLASH] @ ''Windows'' @ [BACKSLASH] @ ''System32''
             @ [BACKSLASH] @ ''WindowsPowerShell'' @ [BACKSLASH] @ ''v1.0'' @ [BACKSLASH]
             @ ''powershell.exe'')
        then [''powershell'', ''-NoProfile'', ''-Command'']
        else [''cmd'', ''/c''])
     else
       (if path_exists h ''/bin/bash'' then [''/bin/bash'', ''-c'']
        else [''/bin/sh'', ''-c'']))"

text \<open>
  A Linux host for the examples: \<^verbatim>\<open>/bin/bash\<close> exists, \<^verbatim>\<open>/tmp\<close> is the only directory,
  and every call of \<^verbatim>\<open>subprocess.run\<close> has the given outcome. \<^verbatim>\<open>expanduser\<close> is the one
  of \<^verbatim>\<open>posixpath\<close> with \<^verbatim>\<open>HOME=/root\<close> and no other user: \<^verbatim>\<open>~\<close> and \<^verbatim>\<open>~/...\<close> are
  expanded to the home directory; after \<^verbatim>\<open>~name\<close> the name is looked up, which raises
  \<^verbatim>\<open>ValueError\<close> for a name with a null character and leaves the path as it is for any
  other name.
\<close>

definition example_expanduser :: "string \<Rightarrow> py_exception + string" where
  "example_expanduser path =
    (let name = takeWhile (\<lambda>c. c \<noteq> CHR ''/'') (drop 1 path)
     in if name = [] then Inr (''/root'' @ drop 1 path)
        else if CHR 0x00 \<in> set name then Inl (ValueError ''embedded null byte'')
        else Inr path)"

definition example_host :: "proc_outcome \<Rightarrow> host" where
  "example_host outcome =
    \<lparr>system = ''Linux'', path_exists = (\<lambda>p. p = ''/bin/bash''),
     path_isdir = (\<lambda>p. p = ''/tmp''), expanduser = example_expanduser,
     subprocess_run = (\<lambda>args t cwd. outcome)\<rparr>"

section \<open>The tool\<close>

text \<open>\<^verbatim>\<open>Tools._get_timeout\<close>: the valve always exists, so \<^verbatim>\<open>getattr\<close> reads it.\<close>

definition get_timeout :: "valves \<Rightarrow> int \<Rightarrow> int" where
  "get_timeout v requested =
    (let default = default_timeout v;
         timeout = (if requested > 0 then requested else default)
     in max 1 (min 120 timeout))"

text \<open>\<^verbatim>\<open>Tools._get_max_output\<close>.\<close>

definition get_max_output :: "valves \<Rightarrow> int" where
  "get_max_output v = max_output_kb v * 1024"

text \<open>
  The body of the \<^verbatim>\<open>try\<close> block of \<^verbatim>\<open>run_command\<close> after \<^verbatim>\<open>subprocess.run\<close> has returned:
  the two streams are merged, an empty result is replaced by a placeholder, the text is
  truncated and the exit code is appended.
\<close>

definition merge_streams :: "string \<Rightarrow> string \<Rightarrow> string" where
  "merge_streams out err =
    (let output = (if out \<noteq> [] then out else []);
         output = (if err \<noteq> []
                   then (if output \<noteq> [] then output @ [NL] @ ''--- stderr ---'' @ [NL]
                         else output) @ err
                   else output)
     in if str_strip output = [] then ''(Command completed with no output)'' else output)"

definition truncate_output :: "valves \<Rightarrow> string \<Rightarrow> string" where
  "truncate_output v output =
    (let max_out = get_max_output v
     in if int (length output) > max_out
        then slice_to output max_out
             @ [NL, NL] @ ''[Output truncated at '' @ str_int max_out @ '' characters]''
        else output)"

definition exit_marker :: "int \<Rightarrow> string" where
  "exit_marker rc = (if rc \<noteq> 0 then [NL, NL] @ ''[Exit code: '' @ str_int rc @ '']'' else [])"

text \<open>
  The result of \<^verbatim>\<open>run_command\<close> for each outcome of \<^verbatim>\<open>subprocess.run\<close>: the \<^verbatim>\<open>except\<close>
  clauses in the order of the source.
\<close>

fun format_outcome :: "valves \<Rightarrow> string \<Rightarrow> int \<Rightarrow> proc_outcome \<Rightarrow> string" where
  "format_outcome v warning_msg cmd_timeout (Completed out err rc) =
     warning_msg @ truncate_output v (merge_streams out err) @ exit_marker rc"
| "format_outcome v warning_msg cmd_timeout TimeoutExpired =
     ''Error: Command timed out after '' @ str_int cmd_timeout @ '' seconds.''"
| "format_outcome v warning_msg cmd_timeout (FileNotFoundError e) =
     ''Error: Command not found - '' @ e"
| "format_outcome v warning_msg cmd_timeout PermissionError =
     ''Error: Permission denied.''"
| "format_outcome v warning_msg cmd_timeout (OtherException e) =
     ''Error executing command: '' @ e"

definition warning_text :: "string list \<Rightarrow> string" where
  "warning_text warnings =
    (if warnings \<noteq> [] then ''[Warning: '' @ str_join ''; '' warnings @ '']'' @ [NL, NL]
     else [])"

text \<open>
  The working directory that \<^verbatim>\<open>run_command\<close> tests and uses when one is given: a
  leading \<^verbatim>\<open>~\<close> is expanded first, by a call of \<^verbatim>\<open>os.path.expanduser\<close> that stands
  before the \<^verbatim>\<open>try\<close> block, so that what it raises is not caught.
\<close>

definition expand_dir :: "host \<Rightarrow> string \<Rightarrow> py_exception + string" where
  "expand_dir h working_dir =
    (if startswith working_dir ''~'' then expanduser h working_dir else Inr working_dir)"

text \<open>
  The \<^verbatim>\<open>try\<close> block of \<^verbatim>\<open>run_command\<close>: \<^verbatim>\<open>subprocess.run\<close> is called once, and each of
  its outcomes becomes a returned string.
\<close>

definition try_block ::
  "valves \<Rightarrow> host \<Rightarrow> string \<Rightarrow> string \<Rightarrow> int \<Rightarrow> string option
     \<Rightarrow> (py_exception + string) \<times> spawn list" where
  "try_block v h command warning_msg cmd_timeout cwd =
    (let full_cmd = get_shell h @ [command]
     in (Inr (format_outcome v warning_msg cmd_timeout
                (subprocess_run h full_cmd cmd_timeout cwd)),
         [(full_cmd, cmd_timeout, cwd)]))"

text \<open>
  \<^verbatim>\<open>Tools.run_command\<close>. The result is what the call does, the returned string
  (\<open>Inr\<close>) or the exception that reaches the caller (\<open>Inl\<close>), together with the calls of
  \<^verbatim>\<open>subprocess.run\<close> that were made (none or one).
\<close>

definition run_command ::
  "valves \<Rightarrow> host \<Rightarrow> string \<Rightarrow> string \<Rightarrow> int \<Rightarrow> (py_exception + string) \<times> spawn list" where
  "run_command v h command working_dir timeout =
    (if command = [] \<or> str_strip command = [] then (Inr ''Error: No command provided.'', [])
     else if is_blocked command then
       (Inr ''Error: This command is blocked for safety reasons.'', [])
     else
       let warning_msg = warning_text (has_warnings command);
           cmd_timeout = get_timeout v timeout
       in if working_dir \<noteq> [] then
            (case expand_dir h working_dir of
               Inl e \<Rightarrow> (Inl e, [])
             | Inr dir \<Rightarrow>
                 if path_isdir h dir
                 then try_block v h command warning_msg cmd_timeout (Some dir)
                 else (Inr (''Error: Working directory not found: '' @ dir), []))
          else try_block v h command warning_msg cmd_timeout None)"

text \<open>\<^verbatim>\<open>Tools.create_folder\<close>.\<close>

definition create_folder ::
  "valves \<Rightarrow> host \<Rightarrow> string \<Rightarrow> bool \<Rightarrow> (py_exception + string) \<times> spawn list" where
  "create_folder v h folder_path create_parents =
    (let folder_path = (if \<not> startswith folder_path ''/''
                        then ''/data/projects/'' @ folder_path else folder_path)
     in if \<not> (startswith folder_path ''/data/user-files''
               \<or> startswith folder_path ''/data/projects'') then
          (Inr ''Error: Can only create folders in writable areas'', [])
        else
          let flag = (if create_parents then ''-p'' else [])
          in run_command v h
               (''mkdir '' @ flag @ '' '' @ [QUOTE] @ folder_path @ [QUOTE]
                  @ '' && echo '' @ [QUOTE] @ ''Folder created: '' @ folder_path @ [QUOTE])
               [] 0)"

section \<open>Facts about the string operations\<close>

text \<open>Lower-casing never turns a character into or out of whitespace.\<close>

lemma isspace_lower_char: "isspace (lower_char c) = isspace c"
  by (simp add: isspace_def lower_char_def Let_def)

lemma set_dropWhile_all: "(\<forall>x\<in>set (dropWhile P s). P x) \<longleftrightarrow> (\<forall>x\<in>set s. P x)"
  by (induction s) auto

lemma str_strip_Nil_iff: "str_strip s = [] \<longleftrightarrow> (\<forall>c\<in>set s. isspace c)"
  by (simp add: str_strip_def dropWhile_eq_Nil_conv set_dropWhile_all)

lemma sublist_into_dropWhile:
  assumes "sublist p s" "p \<noteq> []" "\<not> P (hd p)"
  shows "sublist p (dropWhile P s)"
proof -
  from assms(1) obtain ps ss where s: "s = ps @ p @ ss" by (auto simp: sublist_def)
  have "sublist p (dropWhile P (ps @ p @ ss))"
  proof (induction ps)
    case Nil
    from assms(2,3) have "dropWhile P (p @ ss) = p @ ss" by (cases p) auto
    then show ?case by (simp add: sublist_def) (metis append_Nil)
  next
    case (Cons x ps)
    show ?case
    proof (cases "P x")
      case True
      with Cons show ?thesis by simp
    next
      case False
      then have "dropWhile P ((x # ps) @ p @ ss) = (x # ps) @ p @ ss" by simp
      then show ?thesis by (metis sublist_appendI)
    qed
  qed
  with s show ?thesis by simp
qed

lemma sublist_str_strip:
  assumes "sublist p s" "p \<noteq> []" "\<not> isspace (hd p)" "\<not> isspace (last p)"
  shows "sublist p (str_strip s)"
proof -
  have 1: "sublist p (dropWhile isspace s)" using assms by (intro sublist_into_dropWhile)
  then have "sublist (rev p) (rev (dropWhile isspace s))" by simp
  moreover have "rev p \<noteq> []" "\<not> isspace (hd (rev p))" using assms by (simp_all add: hd_rev)
  ultimately have "sublist (rev p) (dropWhile isspace (rev (dropWhile isspace s)))"
    by (intro sublist_into_dropWhile)
  then have "sublist (rev (rev p)) (rev (dropWhile isspace (rev (dropWhile isspace s))))"
    by (simp only: sublist_rev)
  then show ?thesis by (simp add: str_strip_def)
qed

lemmas eval_simps = str_lower_def lower_char_def isspace_def char_of_def bit_0 Let_def
  str_in_def sublist_code prefix_code startswith_def

lemma blocked_patterns_shape:
  "\<forall>b\<in>set BLOCKED_COMMANDS. str_lower b \<noteq> [] \<and> \<not> isspace (hd (str_lower b)) \<and> \<not> isspace (last (str_lower b))"
  by (simp add: BLOCKED_COMMANDS_def eval_simps)

lemma str_strip_sublist: "sublist (str_strip s) s"
proof -
  have "sublist (dropWhile isspace (rev (dropWhile isspace s))) (rev (dropWhile isspace s))"
    by (rule sublist_dropWhile)
  then have "sublist (str_strip s) (dropWhile isspace s)"
    by (simp add: str_strip_def sublist_rev_left)
  moreover have "sublist (dropWhile isspace s) s" by (rule sublist_dropWhile)
  ultimately show ?thesis by (rule sublist_order.order_trans)
qed

lemma nonspace_in_lower:
  assumes "sublist p (str_lower command)" "p \<noteq> []" "\<not> isspace (hd p)"
  shows "command \<noteq> [] \<and> str_strip command \<noteq> []"
proof -
  from assms(2) have "hd p \<in> set p" by simp
  with assms(1) have "hd p \<in> set (str_lower command)"
    using set_mono_sublist by blast
  then obtain c where c: "c \<in> set command" "hd p = lower_char c"
    by (auto simp: str_lower_def)
  with assms(3) have "\<not> isspace c" by (simp add: isspace_lower_char)
  with c(1) have "str_strip command \<noteq> []" by (auto simp: str_strip_Nil_iff)
  with c(1) show ?thesis by auto
qed

lemma is_blocked_iff:
  "is_blocked command \<longleftrightarrow>
     (\<exists>blocked\<in>set BLOCKED_COMMANDS. str_in (str_lower blocked) (str_lower command))"
proof
  assume "is_blocked command"
  then obtain b where b: "b \<in> set BLOCKED_COMMANDS"
    "sublist (str_lower b) (str_strip (str_lower command))"
    by (auto simp: is_blocked_def list_ex_iff str_in_def)
  have "sublist (str_strip (str_lower command)) (str_lower command)"
    by (rule str_strip_sublist)
  with b show "\<exists>blocked\<in>set BLOCKED_COMMANDS. str_in (str_lower blocked) (str_lower command)"
    unfolding str_in_def using sublist_order.order_trans by blast
next
  assume "\<exists>blocked\<in>set BLOCKED_COMMANDS. str_in (str_lower blocked) (str_lower command)"
  then obtain b where b: "b \<in> set BLOCKED_COMMANDS" "sublist (str_lower b) (str_lower command)"
    by (auto simp: str_in_def)
  from b(1) blocked_patterns_shape
  have "str_lower b \<noteq> []" "\<not> isspace (hd (str_lower b))" "\<not> isspace (last (str_lower b))"
    by blast+
  with b(2) have "sublist (str_lower b) (str_strip (str_lower command))"
    by (intro sublist_str_strip)
  with b(1) show "is_blocked command"
    by (auto simp: is_blocked_def list_ex_iff str_in_def)
qed

section \<open>Facts about \<open>run_command\<close>\<close>

text \<open>The five ways through \<open>run_command\<close>, one lemma each.\<close>

lemma run_command_empty:
  "command = [] \<or> str_strip command = [] \<Longrightarrow>
   run_command v h command working_dir timeout = (Inr ''Error: No command provided.'', [])"
  by (auto simp: run_command_def)

lemma run_command_blocked:
  "command \<noteq> [] \<Longrightarrow> str_strip command \<noteq> [] \<Longrightarrow> is_blocked command \<Longrightarrow>
   run_command v h command working_dir timeout =
     (Inr ''Error: This command is blocked for safety reasons.'', [])"
  by (simp add: run_command_def)

lemma run_command_raises:
  "command \<noteq> [] \<Longrightarrow> str_strip command \<noteq> [] \<Longrightarrow> \<not> is_blocked command \<Longrightarrow>
   working_dir \<noteq> [] \<Longrightarrow> expand_dir h working_dir = Inl e \<Longrightarrow>
   run_command v h command working_dir timeout = (Inl e, [])"
  by (simp add: run_command_def Let_def)

lemma run_command_bad_dir:
  "command \<noteq> [] \<Longrightarrow> str_strip command \<noteq> [] \<Longrightarrow> \<not> is_blocked command \<Longrightarrow>
   working_dir \<noteq> [] \<Longrightarrow> expand_dir h working_dir = Inr dir \<Longrightarrow> \<not> path_isdir h dir \<Longrightarrow>
   run_command v h command working_dir timeout =
     (Inr (''Error: Working directory not found: '' @ dir), [])"
  by (simp add: run_command_def Let_def)

lemma run_command_spawns:
  "command \<noteq> [] \<Longrightarrow> str_strip command \<noteq> [] \<Longrightarrow> \<not> is_blocked command \<Longrightarrow>
   (working_dir = [] \<and> cwd = None)
     \<or> (working_dir \<noteq> [] \<and> expand_dir h working_dir = Inr dir \<and> path_isdir h dir
          \<and> cwd = Some dir) \<Longrightarrow>
   run_command v h command working_dir timeout =
     (Inr (format_outcome v (warning_text (has_warnings command)) (get_timeout v timeout)
        (subprocess_run h (get_shell h @ [command]) (get_timeout v timeout) cwd)),
      [(get_shell h @ [command], get_timeout v timeout, cwd)])"
  by (auto simp: run_command_def try_block_def Let_def)

lemma run_command_spawn_timeout:
  "s \<in> set (snd (run_command v h c wd r)) \<Longrightarrow> fst (snd s) = get_timeout v r"
  by (auto simp: run_command_def try_block_def Let_def split: if_splits sum.splits)

lemma warn_loop_filter:
  "warn_loop ps cmd_lower =
     map (\<lambda>p. ''Command contains '' @ [QUOTE] @ p @ [QUOTE]) (filter (\<lambda>p. str_in p cmd_lower) ps)"
  by (induction ps) simp_all

lemma warn_patterns_shape:
  "\<forall>p\<in>set WARN_PATTERNS. p \<noteq> [] \<and> \<not> isspace (hd p)"
  by (simp add: WARN_PATTERNS_def eval_simps)

lemma has_warnings_nonempty:
  assumes "has_warnings command \<noteq> []"
  shows "command \<noteq> [] \<and> str_strip command \<noteq> []"
proof -
  from assms obtain p where p: "p \<in> set WARN_PATTERNS" "sublist p (str_lower command)"
    by (auto simp: has_warnings_def warn_loop_filter filter_empty_conv str_in_def)
  from p(1) warn_patterns_shape have "p \<noteq> []" "\<not> isspace (hd p)" by blast+
  with p(2) show ?thesis by (intro nonspace_in_lower)
qed

lemma get_timeout_allow_sudo:
  "get_timeout (v\<lparr>allow_sudo := b\<rparr>) r = get_timeout v r"
  by (simp add: get_timeout_def)

lemma format_outcome_allow_sudo:
  "format_outcome (v\<lparr>allow_sudo := b\<rparr>) w t outcome = format_outcome v w t outcome"
  by (cases outcome) (simp_all add: truncate_output_def get_max_output_def)

lemma try_block_allow_sudo:
  "try_block (v\<lparr>allow_sudo := b\<rparr>) h command w t cwd = try_block v h command w t cwd"
  by (simp add: try_block_def format_outcome_allow_sudo)

lemmas eval_run = run_command_def try_block_def is_blocked_def has_warnings_def
  WARN_PATTERNS_def BLOCKED_COMMANDS_def str_strip_def example_host_def
  example_expanduser_def get_shell_def warning_text_def expand_dir_def get_timeout_def
  default_valves_def

text \<open>Decimal numerals of the examples, and the shape of the output of a completed process.\<close>

lemma str_int_1: "str_int 1 = ''1''"
  by code_simp

lemma str_int_7: "str_int 7 = ''7''"
  by (simp add: str_int_def str_nat.simps [of 7] digit_char_def char_of_def bit_0)

lemma str_int_30: "str_int 30 = ''30''"
  by (simp add: str_int_def str_nat.simps [of 30] str_nat.simps [of 3] digit_char_def char_of_def bit_0)

lemma str_int_1024: "str_int 1024 = ''1024''"
  by code_simp

lemma merge_streams_stdout:
  "out \<noteq> [] \<Longrightarrow> \<not> isspace (hd out) \<Longrightarrow> merge_streams out [] = out"
  by (cases out) (auto simp: merge_streams_def str_strip_Nil_iff)

lemma truncate_output_long:
  assumes "0 \<le> max_output_kb v" and "int (length output) > max_output_kb v * 1024"
  shows "truncate_output v output =
           take (nat (max_output_kb v * 1024)) output @ [NL, NL] @ ''[Output truncated at ''
             @ str_int (max_output_kb v * 1024) @ '' characters]''"
  using assms by (simp add: truncate_output_def get_max_output_def slice_to_def Let_def)

lemma format_outcome_failure:
  assumes "\<not> is_Completed outcome"
  shows "prefix ''Error'' (format_outcome v w t outcome)
       \<and> (prefix ''Error:'' (format_outcome v w t outcome)
          \<or> (\<exists>e. outcome = OtherException e
                \<and> format_outcome v w t outcome = ''Error executing command: '' @ e))"
  using assms by (cases outcome) simp_all

section \<open>The deny list is a hard gate\<close>

text \<open>
  Claim C1. For every command in which some pattern of the built-in deny list occurs,
  compared case-insensitively (the lower-cased pattern occurs in the lower-cased
  command), \<open>run_command\<close> returns the blocked error and makes no call of
  \<^verbatim>\<open>subprocess.run\<close>. This holds for every configuration, host, working directory and
  requested timeout: nothing the caller or the configuration supplies bypasses the gate.
\<close>

theorem blocked_never_spawns:
  assumes "blocked \<in> set BLOCKED_COMMANDS"
    and "str_in (str_lower blocked) (str_lower command)"
  shows "run_command v h command working_dir timeout =
           (Inr ''Error: This command is blocked for safety reasons.'', [])"
proof -
  from assms have blk: "is_blocked command" by (auto simp: is_blocked_iff)
  from assms(1) blocked_patterns_shape
  have "str_lower blocked \<noteq> []" "\<not> isspace (hd (str_lower blocked))" by blast+
  with assms(2) have "command \<noteq> [] \<and> str_strip command \<noteq> []"
    unfolding str_in_def by (intro nonspace_in_lower)
  with blk show ?thesis by (simp add: run_command_def)
qed

theorem blocked_never_spawns_witness:
  "''rm -rf /'' \<in> set BLOCKED_COMMANDS
   \<and> str_in (str_lower ''rm -rf /'') (str_lower ''  sudo RM -Rf / --no-preserve-root'')
   \<and> run_command default_valves (example_host (Completed ''done'' [] 0))
         ''  sudo RM -Rf / --no-preserve-root'' ''/tmp'' 5 =
       (Inr ''Error: This command is blocked for safety reasons.'', [])"
proof -
  have a: "''rm -rf /'' \<in> set BLOCKED_COMMANDS" by (simp add: BLOCKED_COMMANDS_def)
  have b: "str_in (str_lower ''rm -rf /'') (str_lower ''  sudo RM -Rf / --no-preserve-root'')"
    by (simp add: eval_simps)
  from a b blocked_never_spawns [OF a b] show ?thesis by blast
qed

section \<open>The effective timeout\<close>

text \<open>
  Claim C9. For every requested timeout, negative ones included, and every value of the
  \<open>default_timeout\<close> valve, also one outside 1..120, the timeout that \<open>get_timeout\<close>
  computes lies between 1 and 120: the configured default is clamped like a requested
  value.
\<close>

theorem get_timeout_in_range:
  "1 \<le> get_timeout v requested \<and> get_timeout v requested \<le> 120"
  by (simp add: get_timeout_def Let_def)

text \<open>
  Claim C2, as stated, says that a requested timeout of -5 is clamped to 1. It is not:
  \<open>get_timeout\<close> replaces every requested value that is not positive by the
  configured default, so with the default configuration -5 gives 30.
\<close>

theorem negative_timeout_counterexample:
  "get_timeout default_valves (- 5) = 30 \<and> get_timeout default_valves (- 5) \<noteq> 1"
  by (simp add: get_timeout_def default_valves_def)

text \<open>
  Claim C2, amended. The effective timeout is clamped to 1..120, and a requested value
  that is zero or negative is replaced by the configured default. With a configured
  default within 1..120: a request of 0 uses the configured default, a request of 9999 is
  clamped to 120, and a request of -5 uses the configured default as well. Every call of
  \<^verbatim>\<open>subprocess.run\<close> made by \<open>run_command\<close> carries this effective timeout.
\<close>

theorem timeout_clamp:
  assumes "1 \<le> default_timeout v" and "default_timeout v \<le> 120"
  shows "get_timeout v 0 = default_timeout v
       \<and> get_timeout v 9999 = 120
       \<and> get_timeout v (- 5) = default_timeout v
       \<and> (\<forall>r. r \<le> 0 \<longrightarrow> get_timeout v r = default_timeout v)
       \<and> (\<forall>r. 0 < r \<longrightarrow> get_timeout v r = min 120 r)
       \<and> (\<forall>s\<in>set (snd (run_command v h c wd r)). fst (snd s) = get_timeout v r)"
  using assms by (auto simp: get_timeout_def Let_def run_command_spawn_timeout)

theorem timeout_clamp_witness:
  "1 \<le> default_timeout default_valves \<and> default_timeout default_valves \<le> 120
   \<and> get_timeout default_valves 0 = 30
   \<and> get_timeout default_valves 9999 = 120
   \<and> get_timeout default_valves (- 5) = 30
   \<and> snd (run_command default_valves (example_host TimeoutExpired) ''ls'' [] (- 5)) =
        [([''/bin/bash'', ''-c'', ''ls''], 30, None)]"
proof -
  have a: "1 \<le> default_timeout default_valves" and b: "default_timeout default_valves \<le> 120"
    by (simp_all add: default_valves_def)
  have c: "snd (run_command default_valves (example_host TimeoutExpired) ''ls'' [] (- 5)) =
        [([''/bin/bash'', ''-c'', ''ls''], 30, None)]"
    by (simp add: eval_run eval_simps)
  from timeout_clamp [OF a b, of "example_host TimeoutExpired" "''ls''" "[]" "- 5"] a b c
  show ?thesis by (simp add: default_valves_def)
qed

section \<open>Valves that the gate does not read\<close>

text \<open>
  Claim C8. For every command and every value of the \<open>allow_sudo\<close> valve the result of
  \<open>run_command\<close> (the returned string and the calls of \<^verbatim>\<open>subprocess.run\<close>, hence the
  decision to block, to warn or to run unannotated) is the same: \<open>is_blocked\<close> and
  \<open>has_warnings\<close> take the command alone, and nothing else in \<open>run_command\<close> reads the
  valve.
\<close>

theorem allow_sudo_not_consulted:
  "run_command (v\<lparr>allow_sudo := b\<rparr>) h command working_dir timeout =
   run_command v h command working_dir timeout"
  by (simp add: run_command_def try_block_allow_sudo get_timeout_allow_sudo Let_def
      split: sum.splits)

text \<open>
  Claim C3 says that a pattern listed in the \<open>blocked_commands\<close> valve blocks the
  commands that contain it. The valve is declared with the description
  \<^verbatim>\<open>Comma-separated blocked patterns\<close>, but \<open>is_blocked\<close> searches the built-in list
  only: with the valve set to \<^verbatim>\<open>curl\<close>, the command \<^verbatim>\<open>curl example.com\<close> is not
  blocked and is handed to \<^verbatim>\<open>subprocess.run\<close>.
\<close>

theorem blocked_commands_valve_ignored:
  "snd (run_command (default_valves\<lparr>blocked_commands := ''curl''\<rparr>)
         (example_host (Completed ''ok'' [] 0)) ''curl example.com'' [] 0) =
     [([''/bin/bash'', ''-c'', ''curl example.com''], 30, None)]
   \<and> \<not> is_blocked ''curl example.com''"
  by (simp add: eval_run eval_simps)

section \<open>Creating folders\<close>

text \<open>
  Claim C10. \<open>create_folder\<close> first turns a relative \<open>folder_path\<close> (one that does not
  start with a slash) into \<^verbatim>\<open>/data/projects/\<close> followed by it. When the resulting path
  starts neither with \<^verbatim>\<open>/data/user-files\<close> nor with \<^verbatim>\<open>/data/projects\<close>, the error is
  returned and no command is executed; and whenever a command is executed, it is the
  \<^verbatim>\<open>mkdir\<close> on the resulting path, which starts with one of the two prefixes.
\<close>

theorem create_folder_refusal:
  assumes "target = (if startswith folder_path ''/'' then folder_path
                     else ''/data/projects/'' @ folder_path)"
  shows "(\<not> startswith target ''/data/user-files'' \<and> \<not> startswith target ''/data/projects''
            \<longrightarrow> create_folder v h folder_path create_parents =
                  (Inr ''Error: Can only create folders in writable areas'', []))
       \<and> (\<forall>s\<in>set (snd (create_folder v h folder_path create_parents)).
             (startswith target ''/data/user-files'' \<or> startswith target ''/data/projects'')
             \<and> last (fst s) =
                 ''mkdir '' @ (if create_parents then ''-p'' else []) @ '' '' @ [QUOTE] @ target
                   @ [QUOTE] @ '' && echo '' @ [QUOTE] @ ''Folder created: '' @ target @ [QUOTE])"
  using assms
  by (auto simp: create_folder_def Let_def run_command_def try_block_def split: if_splits)

theorem create_folder_refusal_witness:
  "\<not> startswith ''/etc/cron.d'' ''/data/user-files''
   \<and> \<not> startswith ''/etc/cron.d'' ''/data/projects''
   \<and> create_folder default_valves (example_host (Completed [] [] 0)) ''/etc/cron.d'' True =
     (Inr ''Error: Can only create folders in writable areas'', [])
   \<and> snd (create_folder default_valves (example_host (Completed [] [] 0)) ''notes'' False) =
       [([''/bin/bash'', ''-c'',
          ''mkdir  '' @ [QUOTE] @ ''/data/projects/notes'' @ [QUOTE] @ '' && echo '' @ [QUOTE]
            @ ''Folder created: /data/projects/notes'' @ [QUOTE]], 30, None)]
   \<and> (startswith ''/data/projects/notes'' ''/data/user-files''
        \<or> startswith ''/data/projects/notes'' ''/data/projects'')"
proof -
  let ?h = "example_host (Completed [] [] 0)"
  have a: "\<not> startswith ''/etc/cron.d'' ''/data/user-files''"
    and b: "\<not> startswith ''/etc/cron.d'' ''/data/projects''"
    by (simp_all add: startswith_def)
  have t: "''/etc/cron.d'' = (if startswith ''/etc/cron.d'' ''/'' then ''/etc/cron.d''
                     else ''/data/projects/'' @ ''/etc/cron.d'')"
    by (simp add: startswith_def)
  have t': "''/data/projects/notes'' = (if startswith ''notes'' ''/'' then ''notes''
                     else ''/data/projects/'' @ ''notes'')"
    by (simp add: startswith_def)
  have d: "snd (create_folder default_valves ?h ''notes'' False) =
       [([''/bin/bash'', ''-c'',
          ''mkdir  '' @ [QUOTE] @ ''/data/projects/notes'' @ [QUOTE] @ '' && echo '' @ [QUOTE]
            @ ''Folder created: /data/projects/notes'' @ [QUOTE]], 30, None)]"
    by (simp add: create_folder_def eval_run eval_simps)
  from create_folder_refusal [OF t, of default_valves ?h True] a b
  have 1: "create_folder default_valves ?h ''/etc/cron.d'' True =
     (Inr ''Error: Can only create folders in writable areas'', [])" by blast
  from create_folder_refusal [OF t', of default_valves ?h False] d
  have 2: "startswith ''/data/projects/notes'' ''/data/user-files''
        \<or> startswith ''/data/projects/notes'' ''/data/projects''" by simp
  from a b 1 d 2 show ?thesis by blast
qed

section \<open>The working directory and the exit code\<close>

text \<open>
  Claim C7 says that every working directory that does not exist makes \<open>run_command\<close>
  return the error \<^verbatim>\<open>Error: Working directory not found: ...\<close>. For the working directory
  that consists of \<^verbatim>\<open>~\<close> and a null character, which is no directory, the expansion of
  \<^verbatim>\<open>~\<close> raises \<^verbatim>\<open>ValueError\<close>; the call stands before the \<^verbatim>\<open>try\<close> block, so the exception
  reaches the caller and no error string is returned. No process is run.
\<close>

theorem working_dir_expansion_raises:
  "''ls'' \<noteq> [] \<and> str_strip ''ls'' \<noteq> [] \<and> \<not> is_blocked ''ls''
   \<and> \<not> path_isdir (example_host (Completed ''out'' [] 0)) [CHR ''~'', CHR 0x00]
   \<and> run_command default_valves (example_host (Completed ''out'' [] 0)) ''ls''
         [CHR ''~'', CHR 0x00] 0 =
       (Inl (ValueError ''embedded null byte''), [])"
  by (simp add: eval_run eval_simps)

text \<open>
  What does hold for a command that is neither empty nor blocked: when the expansion of
  the given working directory returns a path that is not a directory, the error with
  that path is returned and no process is run; and a process that completes with an exit
  code other than 0 gives the normal output followed by the marker
  \<^verbatim>\<open>[Exit code: rc]\<close>.
\<close>

lemma working_dir_not_found:
  assumes "command \<noteq> []" and "str_strip command \<noteq> []" and "\<not> is_blocked command"
    and "working_dir \<noteq> []" and "expand_dir h working_dir = Inr dir"
    and "\<not> path_isdir h dir"
  shows "run_command v h command working_dir timeout =
           (Inr (''Error: Working directory not found: '' @ dir), [])"
  using assms by (rule run_command_bad_dir)

lemma exit_code_marker:
  assumes "command \<noteq> []" and "str_strip command \<noteq> []" and "\<not> is_blocked command"
    and "(working_dir = [] \<and> cwd = None)
         \<or> (working_dir \<noteq> [] \<and> expand_dir h working_dir = Inr dir \<and> path_isdir h dir
              \<and> cwd = Some dir)"
    and "subprocess_run h (get_shell h @ [command]) (get_timeout v timeout) cwd =
           Completed out err rc"
    and "rc \<noteq> 0"
  shows "run_command v h command working_dir timeout =
           (Inr (warning_text (has_warnings command) @ truncate_output v (merge_streams out err)
                   @ [NL, NL] @ ''[Exit code: '' @ str_int rc @ '']''),
            [(get_shell h @ [command], get_timeout v timeout, cwd)])"
  using run_command_spawns [OF assms(1-4), of v timeout] assms(5,6)
  by (simp add: exit_marker_def)

lemma exit_code_marker_example:
  "run_command default_valves (example_host (Completed ''partial'' [] 7)) ''grep x f''
     ''/tmp'' 0 =
     (Inr (''partial'' @ [NL, NL] @ ''[Exit code: 7]''),
      [([''/bin/bash'', ''-c'', ''grep x f''], 30, Some ''/tmp'')])
   \<and> run_command default_valves (example_host (Completed ''partial'' [] 7)) ''grep x f''
     ''/definitely/not/real'' 0 =
     (Inr ''Error: Working directory not found: /definitely/not/real'', [])"
  by (simp add: eval_run eval_simps truncate_output_def merge_streams_def get_max_output_def
      exit_marker_def str_int_7 startswith_def)

section \<open>Failures as strings\<close>

text \<open>
  Claim C6, as stated, says that every failure is returned as a string prefixed
  \<^verbatim>\<open>Error:\<close>. The last \<^verbatim>\<open>except\<close> clause, which catches every exception that is not a
  timeout, a missing file or a permission error, returns
  \<^verbatim>\<open>Error executing command: ...\<close> instead, which does not start with \<^verbatim>\<open>Error:\<close>.
\<close>

theorem generic_failure_counterexample:
  "run_command default_valves (example_host (OtherException ''boom'')) ''ls'' [] 0 =
     (Inr ''Error executing command: boom'', [([''/bin/bash'', ''-c'', ''ls''], 30, None)])
   \<and> \<not> prefix ''Error:'' ''Error executing command: boom''"
  by (simp add: eval_run eval_simps)

text \<open>
  Claim C6, amended. Every failure outcome of \<open>run_command\<close> (empty command, blocked
  command, missing working directory, timeout, missing interpreter, permission denied,
  any other exception of \<^verbatim>\<open>subprocess.run\<close>) is returned, not raised, and the returned
  string starts with \<^verbatim>\<open>Error\<close>: it is prefixed \<^verbatim>\<open>Error:\<close> in every case but the last,
  where it is \<^verbatim>\<open>Error executing command: \<close> followed by the text of the exception. This
  is stated for the calls in which the command is empty or blocked, no working directory
  is given, or the expansion of the working directory returns a path \<open>dir\<close>; the call
  in which that expansion raises is not covered.
\<close>

theorem failures_are_error_strings:
  assumes "r = run_command v h command working_dir timeout"
    and "command = [] \<or> str_strip command = [] \<or> is_blocked command
         \<or> working_dir = [] \<or> expand_dir h working_dir = Inr dir"
    and "outcome = subprocess_run h (get_shell h @ [command]) (get_timeout v timeout)
                     (if working_dir \<noteq> [] then Some dir else None)"
    and "command = [] \<or> str_strip command = [] \<or> is_blocked command
         \<or> (working_dir \<noteq> [] \<and> \<not> path_isdir h dir)
         \<or> \<not> is_Completed outcome"
  shows "\<exists>s. fst r = Inr s \<and> prefix ''Error'' s
           \<and> (prefix ''Error:'' s
              \<or> (\<exists>e. outcome = OtherException e \<and> snd r \<noteq> []
                    \<and> s = ''Error executing command: '' @ e))"
proof (cases "command = [] \<or> str_strip command = []")
  case True
  then show ?thesis by (simp add: assms(1) run_command_empty)
next
  case ne: False
  then have c: "command \<noteq> []" "str_strip command \<noteq> []" by simp_all
  show ?thesis
  proof (cases "is_blocked command")
    case True
    with c show ?thesis by (simp add: assms(1) run_command_blocked)
  next
    case nb: False
    with ne assms(2) have dir: "working_dir = [] \<or> expand_dir h working_dir = Inr dir"
      by blast
    show ?thesis
    proof (cases "working_dir \<noteq> [] \<and> \<not> path_isdir h dir")
      case True
      with dir have "working_dir \<noteq> []" "expand_dir h working_dir = Inr dir"
        "\<not> path_isdir h dir" by simp_all
      from run_command_bad_dir [OF c nb this] show ?thesis by (simp add: assms(1))
    next
      case False
      with dir have ok: "(working_dir = [] \<and> (if working_dir \<noteq> [] then Some dir else None) = None)
          \<or> (working_dir \<noteq> [] \<and> expand_dir h working_dir = Inr dir \<and> path_isdir h dir
               \<and> (if working_dir \<noteq> [] then Some dir else None) = Some dir)"
        by auto
      from ne nb False assms(4) have nc: "\<not> is_Completed outcome" by blast
      from run_command_spawns [OF c nb ok, of v timeout]
      have "r = (Inr (format_outcome v (warning_text (has_warnings command))
                        (get_timeout v timeout) outcome),
                 [(get_shell h @ [command], get_timeout v timeout,
                   if working_dir \<noteq> [] then Some dir else None)])"
        by (simp add: assms(1,3))
      with format_outcome_failure [OF nc, of v "warning_text (has_warnings command)"
          "get_timeout v timeout"]
      show ?thesis by simp
    qed
  qed
qed

theorem failures_are_error_strings_witness:
  "\<not> is_Completed PermissionError
   \<and> run_command default_valves (example_host PermissionError) ''ls'' [] 0 =
       (Inr ''Error: Permission denied.'', [([''/bin/bash'', ''-c'', ''ls''], 30, None)])
   \<and> prefix ''Error:'' ''Error: Permission denied.''
   \<and> is_blocked ''reboot''
   \<and> (\<exists>s. fst (run_command default_valves (example_host PermissionError) ''reboot'' [] 0)
             = Inr s \<and> prefix ''Error:'' s)
   \<and> expand_dir (example_host PermissionError) ''~/nowhere'' = Inr ''/root/nowhere''
   \<and> \<not> path_isdir (example_host PermissionError) ''/root/nowhere''
   \<and> (\<exists>s. fst (run_command default_valves (example_host PermissionError) ''ls''
                  ''~/nowhere'' 0) = Inr s \<and> prefix ''Error:'' s)"
proof -
  let ?h = "example_host PermissionError"
  have o: "PermissionError = subprocess_run ?h (get_shell ?h @ [c]) (get_timeout default_valves 0)
                     (if wd \<noteq> [] then Some d else None)" for c wd :: string and d
    by (simp add: example_host_def)
  have a: "\<not> is_Completed PermissionError" by simp
  have b: "is_blocked ''reboot''" by (simp add: eval_run eval_simps)
  have e: "run_command default_valves ?h ''ls'' [] 0 =
       (Inr ''Error: Permission denied.'', [([''/bin/bash'', ''-c'', ''ls''], 30, None)])"
    by (simp add: eval_run eval_simps)
  have p: "prefix ''Error:'' ''Error: Permission denied.''" by simp
  have x: "expand_dir ?h ''~/nowhere'' = Inr ''/root/nowhere''"
    by (simp add: expand_dir_def startswith_def example_host_def example_expanduser_def)
  have n: "\<not> path_isdir ?h ''/root/nowhere''" by (simp add: example_host_def)
  have 1: "\<exists>s. fst (run_command default_valves ?h ''ls'' [] 0) = Inr s \<and> prefix ''Error'' s"
    using failures_are_error_strings [OF refl _ o, of "''ls''" "[]" "[]"] a by auto
  have 2: "\<exists>s. fst (run_command default_valves ?h ''reboot'' [] 0) = Inr s \<and> prefix ''Error:'' s"
    using failures_are_error_strings [OF refl _ o, of "''reboot''" "[]" "[]"] b by auto
  have 3: "\<exists>s. fst (run_command default_valves ?h ''ls'' ''~/nowhere'' 0) = Inr s
              \<and> prefix ''Error:'' s"
    using failures_are_error_strings [OF refl _ o, of "''ls''" "''~/nowhere''" "''/root/nowhere''"]
      x n by auto
  from a e p b 1 2 x n 3 show ?thesis by blast
qed

section \<open>Warnings\<close>

text \<open>
  Claim C5, as stated, says that a command with warn-listed substrings is always run and
  that the warning text is prepended on every outcome. With the command \<^verbatim>\<open>sudo ls\<close>,
  which is not blocked and carries one warning: when the process times out, the returned
  error string has no warning prefix; and when the working directory is missing, no
  process is run at all.
\<close>

theorem warning_lost_counterexample:
  "\<not> is_blocked ''sudo ls''
   \<and> has_warnings ''sudo ls'' = [''Command contains '' @ [QUOTE] @ ''sudo'' @ [QUOTE]]
   \<and> run_command default_valves (example_host TimeoutExpired) ''sudo ls'' [] 0 =
       (Inr ''Error: Command timed out after 30 seconds.'',
        [([''/bin/bash'', ''-c'', ''sudo ls''], 30, None)])
   \<and> \<not> prefix (warning_text (has_warnings ''sudo ls''))
         ''Error: Command timed out after 30 seconds.''
   \<and> run_command default_valves (example_host TimeoutExpired) ''sudo ls'' ''/nowhere'' 0 =
       (Inr ''Error: Working directory not found: /nowhere'', [])"
  by (simp add: eval_run eval_simps str_int_30)

text \<open>
  Claim C5, amended. For every command that is not blocked but contains warn-listed
  substrings, \<open>run_command\<close> calls \<^verbatim>\<open>subprocess.run\<close> once, provided that no working
  directory is given or the given one expands to an existing directory; the warnings are
  one message for each pattern of the warn list that occurs in the lower-cased command;
  and whenever the process completes, with any exit code, the returned text is the
  aggregated warning \<^verbatim>\<open>[Warning: m1; m2; ...]\<close> and an empty line, followed by the output.
  (The error strings for a timeout or a failed launch carry no warning.)
\<close>

theorem warnings_prepended:
  assumes "\<not> is_blocked command" and "has_warnings command \<noteq> []"
    and "(working_dir = [] \<and> cwd = None)
         \<or> (working_dir \<noteq> [] \<and> expand_dir h working_dir = Inr dir \<and> path_isdir h dir
              \<and> cwd = Some dir)"
  shows "snd (run_command v h command working_dir timeout) =
           [(get_shell h @ [command], get_timeout v timeout, cwd)]
       \<and> has_warnings command =
           map (\<lambda>p. ''Command contains '' @ [QUOTE] @ p @ [QUOTE])
             (filter (\<lambda>p. str_in p (str_lower command)) WARN_PATTERNS)
       \<and> (\<forall>out err rc.
             subprocess_run h (get_shell h @ [command]) (get_timeout v timeout) cwd =
               Completed out err rc \<longrightarrow>
             fst (run_command v h command working_dir timeout) =
               Inr (''[Warning: '' @ str_join ''; '' (has_warnings command) @ '']'' @ [NL, NL]
                      @ truncate_output v (merge_streams out err) @ exit_marker rc))"
proof -
  from has_warnings_nonempty [OF assms(2)]
  have "command \<noteq> []" "str_strip command \<noteq> []" by simp_all
  from run_command_spawns [OF this assms(1,3), of v timeout] assms(2)
  show ?thesis
    by (simp add: warning_text_def has_warnings_def warn_loop_filter)
qed

theorem warnings_prepended_witness:
  "\<not> is_blocked ''sudo cat /etc/passwords''
   \<and> has_warnings ''sudo cat /etc/passwords'' =
       [''Command contains '' @ [QUOTE] @ ''sudo'' @ [QUOTE],
        ''Command contains '' @ [QUOTE] @ ''password'' @ [QUOTE]]
   \<and> expand_dir (example_host (Completed ''root'' [] 0)) ''/tmp'' = Inr ''/tmp''
   \<and> path_isdir (example_host (Completed ''root'' [] 0)) ''/tmp''
   \<and> run_command default_valves (example_host (Completed ''root'' [] 0))
        ''sudo cat /etc/passwords'' ''/tmp'' 0 =
       (Inr (''[Warning: Command contains '' @ [QUOTE] @ ''sudo'' @ [QUOTE]
          @ ''; Command contains '' @ [QUOTE] @ ''password'' @ [QUOTE] @ '']'' @ [NL, NL]
          @ ''root''),
        [([''/bin/bash'', ''-c'', ''sudo cat /etc/passwords''], 30, Some ''/tmp'')])"
proof -
  let ?h = "example_host (Completed ''root'' [] 0)"
  let ?c = "''sudo cat /etc/passwords''"
  have a: "\<not> is_blocked ?c" by (simp add: eval_run eval_simps)
  have w: "has_warnings ?c =
       [''Command contains '' @ [QUOTE] @ ''sudo'' @ [QUOTE],
        ''Command contains '' @ [QUOTE] @ ''password'' @ [QUOTE]]"
    by (simp add: eval_run eval_simps)
  then have b: "has_warnings ?c \<noteq> []" by simp
  have x: "expand_dir ?h ''/tmp'' = Inr ''/tmp''" by (simp add: expand_dir_def startswith_def)
  have c: "path_isdir ?h ''/tmp''" by (simp add: example_host_def)
  from x c have d: "(''/tmp'' = [] \<and> Some ''/tmp'' = None)
         \<or> (''/tmp'' \<noteq> [] \<and> expand_dir ?h ''/tmp'' = Inr ''/tmp'' \<and> path_isdir ?h ''/tmp''
              \<and> Some ''/tmp'' = Some ''/tmp'')"
    by simp
  have s: "get_shell ?h = [''/bin/bash'', ''-c'']" "get_timeout default_valves 0 = 30"
    by (simp_all add: get_shell_def example_host_def get_timeout_def default_valves_def)
  have r: "subprocess_run ?h args tmo cwd = Completed ''root'' [] 0" for args tmo cwd
    by (simp add: example_host_def)
  have t: "truncate_output default_valves (merge_streams ''root'' []) = ''root''"
    by (simp add: truncate_output_def merge_streams_def get_max_output_def default_valves_def
        str_strip_def isspace_def)
  from warnings_prepended [OF a b d, of default_valves 0] r s t w
  have "run_command default_valves ?h ?c ''/tmp'' 0 =
       (Inr (''[Warning: Command contains '' @ [QUOTE] @ ''sudo'' @ [QUOTE]
          @ ''; Command contains '' @ [QUOTE] @ ''password'' @ [QUOTE] @ '']'' @ [NL, NL]
          @ ''root''),
        [([''/bin/bash'', ''-c'', ?c], 30, Some ''/tmp'')])"
    by (simp add: exit_marker_def prod_eq_iff)
  with a w x c show ?thesis by blast
qed

section \<open>Truncation\<close>

text \<open>
  Claim C4, as stated, says that for an output longer than the configured maximum the
  length of the returned string is the maximum plus the length of the truncation notice.
  The exit-code marker is appended after the notice (and a warning is put in front), so
  with a limit of 1 KB, 2000 characters of output and exit code 1 the returned string is
  16 characters longer than that.
\<close>

theorem truncated_length_counterexample:
  "int (length (merge_streams (replicate 2000 (CHR ''a'')) []))
     > get_max_output (default_valves\<lparr>max_output_kb := 1\<rparr>)
   \<and> fst (run_command (default_valves\<lparr>max_output_kb := 1\<rparr>)
         (example_host (Completed (replicate 2000 (CHR ''a'')) [] 1)) ''ls'' [] 0)
       = Inr (replicate 1024 (CHR ''a'') @ [NL, NL] @ ''[Output truncated at 1024 characters]''
                @ [NL, NL] @ ''[Exit code: 1]'')
   \<and> length (replicate 1024 (CHR ''a'') @ [NL, NL] @ ''[Output truncated at 1024 characters]''
                @ [NL, NL] @ ''[Exit code: 1]'')
       = 1024 + length ([NL, NL] @ ''[Output truncated at 1024 characters]'') + 16
   \<and> length (replicate 1024 (CHR ''a'') @ [NL, NL] @ ''[Output truncated at 1024 characters]''
                @ [NL, NL] @ ''[Exit code: 1]'')
       \<noteq> 1024 + length ([NL, NL] @ ''[Output truncated at 1024 characters]'')"
proof -
  let ?v = "default_valves\<lparr>max_output_kb := 1\<rparr>"
  let ?out = "replicate 2000 (CHR ''a'')"
  let ?h = "example_host (Completed ?out [] 1)"
  have m: "merge_streams ?out [] = ?out"
    by (rule merge_streams_stdout) (simp_all add: isspace_def)
  have k: "0 \<le> max_output_kb ?v" "int (length ?out) > max_output_kb ?v * 1024" by simp_all
  have a: "''ls'' \<noteq> []" "str_strip ''ls'' \<noteq> []" "\<not> is_blocked ''ls''"
    by (simp_all add: eval_run eval_simps)
  have w: "has_warnings ''ls'' = []" by (simp add: eval_run eval_simps)
  have r: "subprocess_run ?h args tmo cwd = Completed ?out [] 1" for args tmo cwd
    by (simp add: example_host_def)
  have d: "([] = ([]::string) \<and> None = (None::string option))
      \<or> (([]::string) \<noteq> [] \<and> expand_dir ?h [] = Inr [] \<and> path_isdir ?h [] \<and> None = Some [])"
    by simp
  have "fst (run_command ?v ?h ''ls'' [] 0) =
      Inr (truncate_output ?v ?out @ [NL, NL] @ ''[Exit code: 1]'')"
    using run_command_spawns [OF a d, of ?v 0]
    by (simp add: r m w warning_text_def exit_marker_def str_int_1)
  also have "truncate_output ?v ?out =
      take 1024 ?out @ [NL, NL] @ ''[Output truncated at 1024 characters]''"
    using truncate_output_long [OF k] by (simp add: str_int_1024)
  finally have "fst (run_command ?v ?h ''ls'' [] 0) =
      Inr (replicate 1024 (CHR ''a'') @ [NL, NL] @ ''[Output truncated at 1024 characters]''
             @ [NL, NL] @ ''[Exit code: 1]'')"
    by simp
  with m show ?thesis by (simp add: get_max_output_def)
qed

text \<open>
  Claim C4, amended. With a \<open>max_output_kb\<close> that is not negative, for every command that
  is run and completes with a merged output longer than \<open>max_output_kb * 1024\<close>
  characters, the returned string is the warning prefix (if any), the first
  \<open>max_output_kb * 1024\<close> characters of the output, the truncation notice, which names
  exactly that limit, and the exit-code marker (if the exit code is not 0). Its length is
  the sum of these four lengths; it equals the configured maximum plus the length of the
  notice when there is no warning and the exit code is 0.
\<close>

theorem truncated_output:
  assumes "command \<noteq> []" and "str_strip command \<noteq> []" and "\<not> is_blocked command"
    and "(working_dir = [] \<and> cwd = None)
         \<or> (working_dir \<noteq> [] \<and> expand_dir h working_dir = Inr dir \<and> path_isdir h dir
              \<and> cwd = Some dir)"
    and "subprocess_run h (get_shell h @ [command]) (get_timeout v timeout) cwd =
           Completed out err rc"
    and "0 \<le> max_output_kb v"
    and "int (length (merge_streams out err)) > max_output_kb v * 1024"
    and "notice = [NL, NL] @ ''[Output truncated at '' @ str_int (max_output_kb v * 1024)
                    @ '' characters]''"
    and "returned = warning_text (has_warnings command)
                  @ take (nat (max_output_kb v * 1024)) (merge_streams out err) @ notice
                  @ exit_marker rc"
  shows "fst (run_command v h command working_dir timeout) = Inr returned
       \<and> int (length returned) =
           int (length (warning_text (has_warnings command))) + max_output_kb v * 1024
             + int (length notice) + int (length (exit_marker rc))
       \<and> (has_warnings command = [] \<and> rc = 0 \<longrightarrow>
            int (length returned) = max_output_kb v * 1024 + int (length notice))"
proof -
  from run_command_spawns [OF assms(1-4), of v timeout] assms(5)
  have "fst (run_command v h command working_dir timeout) =
      Inr (warning_text (has_warnings command) @ truncate_output v (merge_streams out err)
        @ exit_marker rc)" by simp
  with truncate_output_long [OF assms(6,7)] assms(8,9)
  have 1: "fst (run_command v h command working_dir timeout) = Inr returned" by simp
  from assms(6,7) have "length (take (nat (max_output_kb v * 1024)) (merge_streams out err))
      = nat (max_output_kb v * 1024)" by simp
  with assms(6,9) have 2: "int (length returned) =
           int (length (warning_text (has_warnings command))) + max_output_kb v * 1024
             + int (length notice) + int (length (exit_marker rc))"
    by simp
  from 1 2 show ?thesis by (simp add: warning_text_def exit_marker_def)
qed

theorem truncated_output_witness:
  "''ls'' \<noteq> [] \<and> str_strip ''ls'' \<noteq> [] \<and> \<not> is_blocked ''ls''
   \<and> has_warnings ''ls'' = []
   \<and> 0 \<le> max_output_kb (default_valves\<lparr>max_output_kb := 1\<rparr>)
   \<and> int (length (merge_streams (replicate 2000 (CHR ''a'')) []))
        > max_output_kb (default_valves\<lparr>max_output_kb := 1\<rparr>) * 1024
   \<and> fst (run_command (default_valves\<lparr>max_output_kb := 1\<rparr>)
         (example_host (Completed (replicate 2000 (CHR ''a'')) [] 0)) ''ls'' [] 0) =
       Inr (replicate 1024 (CHR ''a'') @ [NL, NL] @ ''[Output truncated at 1024 characters]'')
   \<and> int (length (replicate 1024 (CHR ''a'') @ [NL, NL]
                      @ ''[Output truncated at 1024 characters]'')) =
       1024 + int (length ([NL, NL] @ ''[Output truncated at 1024 characters]''))"
proof -
  let ?v = "default_valves\<lparr>max_output_kb := 1\<rparr>"
  let ?out = "replicate 2000 (CHR ''a'')"
  let ?h = "example_host (Completed ?out [] 0)"
  let ?text = "replicate 1024 (CHR ''a'') @ [NL, NL] @ ''[Output truncated at 1024 characters]''"
  have m: "merge_streams ?out [] = ?out"
    by (rule merge_streams_stdout) (simp_all add: isspace_def)
  have k1: "0 \<le> max_output_kb ?v"
    and k2: "int (length (merge_streams ?out [])) > max_output_kb ?v * 1024"
    by (simp_all add: m)
  have a: "''ls'' \<noteq> []" and b: "str_strip ''ls'' \<noteq> []" and c: "\<not> is_blocked ''ls''"
    by (simp_all add: eval_run eval_simps)
  have w: "has_warnings ''ls'' = []" by (simp add: eval_run eval_simps)
  have d: "([] = ([]::string) \<and> None = (None::string option))
      \<or> (([]::string) \<noteq> [] \<and> expand_dir ?h [] = Inr [] \<and> path_isdir ?h [] \<and> None = Some [])"
    by simp
  have r: "subprocess_run ?h (get_shell ?h @ [''ls'']) (get_timeout ?v 0) None =
      Completed ?out [] 0"
    by (simp add: example_host_def)
  have n: "[NL, NL] @ ''[Output truncated at 1024 characters]'' =
      [NL, NL] @ ''[Output truncated at '' @ str_int (max_output_kb ?v * 1024) @ '' characters]''"
    by (simp add: str_int_1024)
  have t: "?text = warning_text (has_warnings ''ls'')
                  @ take (nat (max_output_kb ?v * 1024)) (merge_streams ?out [])
                  @ ([NL, NL] @ ''[Output truncated at 1024 characters]'') @ exit_marker 0"
    by (simp add: w m warning_text_def exit_marker_def)
  from truncated_output [OF a b c d r k1 k2 n t] w
  have "fst (run_command ?v ?h ''ls'' [] 0) = Inr ?text
     \<and> int (length ?text) =
       1024 + int (length ([NL, NL] @ ''[Output truncated at 1024 characters]''))"
    by simp
  with a b c w k1 k2 show ?thesis by blast
qed

end
